theory Spec2Isabelle
  imports Main
begin

section \<open>Python strings\<close>

text \<open>
  The renderers of \<^verbatim>\<open>ap.py\<close> work on Python \<^verbatim>\<open>str\<close> values: sequences of Unicode
  code points. A string is modelled as the list of its code points, so that the
  whitespace removed by \<^verbatim>\<open>str.strip()\<close> is the whitespace Python removes.
  \<open>cp\<close> reads an ASCII literal as such a list.
\<close>

type_synonym pystr = "nat list"

definition cp :: "string \<Rightarrow> pystr" where
  "cp s = map of_char s"

text \<open>The exceptions the two renderers can end with.\<close>

datatype py_error = ValueError | UnicodeEncodeError

text \<open>
  \<^verbatim>\<open>str.isspace\<close> on one code point, as \<^verbatim>\<open>str.strip()\<close> without argument uses it:
  U+0009..U+000D, U+001C..U+0020, U+0085, U+00A0, U+1680, U+2000..U+200A, U+2028,
  U+2029, U+202F, U+205F, U+3000.
\<close>

definition isspace :: "nat \<Rightarrow> bool" where
  "isspace c = ((9 \<le> c \<and> c \<le> 13) \<or> (28 \<le> c \<and> c \<le> 32) \<or> c = 133 \<or> c = 160
     \<or> c = 5760 \<or> (8192 \<le> c \<and> c \<le> 8202) \<or> c = 8232 \<or> c = 8233 \<or> c = 8239
     \<or> c = 8287 \<or> c = 12288)"

text \<open>\<^verbatim>\<open>s.strip()\<close>: leading whitespace removed, then trailing whitespace.\<close>

definition strip :: "pystr \<Rightarrow> pystr" where
  "strip s = rev (dropWhile isspace (rev (dropWhile isspace s)))"

text \<open>\<^verbatim>\<open>s.startswith(prefix)\<close>.\<close>

definition startswith :: "pystr \<Rightarrow> pystr \<Rightarrow> bool" where
  "startswith s prefix = (take (length prefix) s = prefix)"

text \<open>
  \<^verbatim>\<open>s.replace(old, new)\<close>: every occurrence of \<open>old\<close>, found from the left and not
  overlapping, becomes \<open>new\<close>; an empty \<open>old\<close> matches before every character and at
  the end.
\<close>

function replace :: "pystr \<Rightarrow> pystr \<Rightarrow> pystr \<Rightarrow> pystr" where
  "replace [] old new = (if old = [] then new else [])"
| "replace (c # cs) old new =
     (if old = [] then new @ c # replace cs old new
      else if startswith (c # cs) old
        then new @ replace (drop (length old) (c # cs)) old new
      else c # replace cs old new)"
  by pat_completeness auto
termination
  by (relation "measure (\<lambda>(s, old, new). length s)") auto

text \<open>
  \<^verbatim>\<open>s.split(sep)\<close> with a separator: \<^verbatim>\<open>ValueError\<close> for the empty separator,
  otherwise the pieces between the occurrences of \<open>sep\<close>, empty pieces kept.
  \<open>split_from\<close> scans the rest of the string with the piece read so far.
\<close>

function split_from :: "pystr \<Rightarrow> pystr \<Rightarrow> pystr \<Rightarrow> pystr list" where
  "split_from [] sep piece = [piece]"
| "split_from (c # cs) sep piece =
     (if sep \<noteq> [] \<and> startswith (c # cs) sep
        then piece # split_from (drop (length sep) (c # cs)) sep []
      else split_from cs sep (piece @ [c]))"
  by pat_completeness auto
termination
  by (relation "measure (\<lambda>(s, sep, piece). length s)") auto

definition split :: "pystr \<Rightarrow> pystr \<Rightarrow> py_error + pystr list" where
  "split s sep = (if sep = [] then Inl ValueError else Inr (split_from s sep []))"

section \<open>The flowing document: \<^verbatim>\<open>create_docx\<close>\<close>

text \<open>
  The document object of python-docx is modelled by what the renderer puts into it:
  the sequence of block elements, in the order of the calls. \<^verbatim>\<open>add_heading(text, level)\<close>
  adds a heading (level 0 is the title), \<^verbatim>\<open>add_paragraph(text, style)\<close> a paragraph
  with an optional style name. The bytes returned by \<^verbatim>\<open>create_docx\<close> are the library's
  serialisation of this document.

  python-docx and lxml are libraries, not part of the source. Both calls write their
  text into the XML tree, and that can raise: the text is cut at every tab, newline and
  carriage return, and each piece between them goes to lxml as one string. lxml encodes
  the piece as UTF-8, which raises \<^verbatim>\<open>UnicodeEncodeError\<close> for a surrogate code point, and
  then refuses with \<^verbatim>\<open>ValueError\<close> a piece that holds NUL, another control character
  below U+0020, U+FFFE or U+FFFF. The first piece that fails ends the call.
\<close>

definition surrogate :: "nat \<Rightarrow> bool" where
  "surrogate c = (55296 \<le> c \<and> c \<le> 57343)"

definition xml_char :: "nat \<Rightarrow> bool" where
  "xml_char c = ((c = 9 \<or> c = 10 \<or> c = 13 \<or> 32 \<le> c) \<and> c \<noteq> 65534 \<and> c \<noteq> 65535)"

definition chunk_error :: "pystr \<Rightarrow> py_error option" where
  "chunk_error s =
     (if list_ex surrogate s then Some UnicodeEncodeError
      else if list_all xml_char s then None
      else Some ValueError)"

text \<open>The text still to be written, and the piece read since the last break.\<close>

fun text_error_from :: "pystr \<Rightarrow> pystr \<Rightarrow> py_error option" where
  "text_error_from [] bfr = chunk_error bfr"
| "text_error_from (c # cs) bfr =
     (if c = 9 \<or> c = 10 \<or> c = 13
        then (case chunk_error bfr of
                Some e \<Rightarrow> Some e
              | None \<Rightarrow> text_error_from cs [])
      else text_error_from cs (bfr @ [c]))"

definition text_error :: "pystr \<Rightarrow> py_error option" where
  "text_error text = text_error_from text []"

datatype docx_element =
    DocHeading pystr nat
  | DocParagraph pystr "pystr option"

type_synonym document = "docx_element list"

definition add_heading :: "pystr \<Rightarrow> nat \<Rightarrow> document \<Rightarrow> py_error + document" where
  "add_heading text level doc =
     (if 9 < level then Inl ValueError
      else case text_error text of
             Some e \<Rightarrow> Inl e
           | None \<Rightarrow> Inr (doc @ [DocHeading text level]))"

definition add_paragraph :: "pystr \<Rightarrow> pystr option \<Rightarrow> document \<Rightarrow> py_error + document" where
  "add_paragraph text style doc =
     (case text_error text of
        Some e \<Rightarrow> Inl e
      | None \<Rightarrow> Inr (doc @ [DocParagraph text style]))"

text \<open>
  The body of the loop over the lines: the branch chain, over the two calls it makes.
  \<open>docx_line\<close> is the body with the calls made on the document.
\<close>

definition docx_body ::
  "(pystr \<Rightarrow> nat \<Rightarrow> 'a) \<Rightarrow> (pystr \<Rightarrow> pystr option \<Rightarrow> 'a) \<Rightarrow> pystr \<Rightarrow> 'a" where
  "docx_body heading paragraph line =
     (if startswith line (cp ''###'')
        then heading (strip (replace line (cp ''###'') [])) 1
      else if startswith line (cp ''-'')
        then paragraph (strip line) (Some (cp ''ListBullet''))
      else paragraph (strip line) None)"

definition docx_line :: "document \<Rightarrow> pystr \<Rightarrow> py_error + document" where
  "docx_line doc line =
     docx_body (\<lambda>text level. add_heading text level doc)
       (\<lambda>text style. add_paragraph text style doc) line"

text \<open>The loop: an exception in one pass ends it, and no document is returned.\<close>

fun docx_lines :: "document \<Rightarrow> pystr list \<Rightarrow> py_error + document" where
  "docx_lines doc [] = Inr doc"
| "docx_lines doc (line # lines) =
     (case docx_line doc line of
        Inl e \<Rightarrow> Inl e
      | Inr doc' \<Rightarrow> docx_lines doc' lines)"

definition create_docx :: "pystr \<Rightarrow> pystr \<Rightarrow> py_error + document" where
  "create_docx resume_text name =
     (case add_heading (name @ [39] @ cp ''s Resume'') 0 [] of
        Inl e \<Rightarrow> Inl e
      | Inr doc \<Rightarrow>
          (case split resume_text [10] of
             Inl e \<Rightarrow> Inl e
           | Inr lines \<Rightarrow> docx_lines doc lines))"

section \<open>The paginated document: \<^verbatim>\<open>create_pdf\<close>\<close>

text \<open>
  The canvas of reportlab is modelled by the sequence of drawing calls made on it.
  The bytes returned by \<^verbatim>\<open>create_pdf\<close> are the library's rendering of these calls.
\<close>

datatype canvas_op =
    SetFont pystr int
  | DrawString int int pystr
  | ShowPage
  | Save

type_synonym canvas = "canvas_op list"

definition setFont :: "pystr \<Rightarrow> int \<Rightarrow> canvas \<Rightarrow> canvas" where
  "setFont fontname fontsize c = c @ [SetFont fontname fontsize]"

definition drawString :: "int \<Rightarrow> int \<Rightarrow> pystr \<Rightarrow> canvas \<Rightarrow> canvas" where
  "drawString x y text c = c @ [DrawString x y text]"

definition showPage :: "canvas \<Rightarrow> canvas" where
  "showPage c = c @ [ShowPage]"

definition save :: "canvas \<Rightarrow> canvas" where
  "save c = c @ [Save]"

text \<open>
  Modelled from the spec: the page size \<^verbatim>\<open>letter\<close> is a constant of
  \<^verbatim>\<open>reportlab.lib.pagesizes\<close>, not of the source; the spec names the standard letter
  size, 612 by 792 points. The source computes the cursor in floating point; every
  value it takes is an integer far below \<open>2 ^ 53\<close>, so integer arithmetic is exact.
\<close>

definition letter :: "int \<times> int" where
  "letter = (612, 792)"

definition height :: int where
  "height = snd letter"

text \<open>
  The literal before the content of a bullet line, as the source file holds it: the
  bytes \<^verbatim>\<open>c3 a2 e2 82 ac c2 a2\<close>, that is the three code points U+00E2, U+20AC and
  U+00A2. It is not the bullet character U+2022.
\<close>

definition bullet_glyph :: pystr where
  "bullet_glyph = [226, 8364, 162]"

text \<open>
  The first statement of the loop body, on the canvas and the cursor \<open>y\<close>:
  \<^verbatim>\<open>if y < 40: c.showPage(); y = height - 40\<close>.
\<close>

definition page_break :: "canvas \<times> int \<Rightarrow> canvas \<times> int" where
  "page_break st = (if snd st < 40 then (showPage (fst st), height - 40) else st)"

text \<open>The body of the loop over the lines: the page check, then the line is drawn.\<close>

definition pdf_line :: "canvas \<times> int \<Rightarrow> pystr \<Rightarrow> canvas \<times> int" where
  "pdf_line st line =
     (let (c, y) = page_break st
      in if startswith line (cp ''###'')
           then (drawString 40 y (strip (replace line (cp ''###'') []))
                   (setFont (cp ''Helvetica-Bold'') 14 c), y - 20)
         else if startswith line (cp ''-'')
           then (drawString 50 y (bullet_glyph @ [32] @ strip (replace line (cp ''-'') []))
                   (setFont (cp ''Helvetica'') 12 c), y - 15)
         else (drawString 40 y (strip line) (setFont (cp ''Helvetica'') 12 c), y - 15))"

text \<open>The calls before the loop: the title, and the cursor below it.\<close>

definition pdf_title :: "pystr \<Rightarrow> canvas \<times> int" where
  "pdf_title name =
     (let y = height - 40;
          c = setFont (cp ''Helvetica-Bold'') 16 [];
          c = drawString 40 y (name @ [39] @ cp ''s Resume'') c;
          y = y - 30;
          c = setFont (cp ''Helvetica'') 12 c
      in (c, y))"

definition create_pdf :: "pystr \<Rightarrow> pystr \<Rightarrow> py_error + canvas" where
  "create_pdf resume_text name =
     (case split resume_text [10] of
        Inl e \<Rightarrow> Inl e
      | Inr lines \<Rightarrow> Inr (save (showPage (fst (foldl pdf_line (pdf_title name) lines)))))"

section \<open>Reading a renderer's output\<close>

text \<open>
  The source has no classifier of its own: each renderer decides the kind of a line by
  the branch it takes. The kind is read off what the branch emits: a heading element,
  a paragraph with a list style or a plain paragraph in the document; a bold font, a
  text indented beyond the left margin or neither on the canvas.
\<close>

datatype kind = Heading | Bullet | Paragraph

fun docx_kind :: "docx_element \<Rightarrow> kind" where
  "docx_kind (DocHeading t lvl) = Heading"
| "docx_kind (DocParagraph t (Some style)) = Bullet"
| "docx_kind (DocParagraph t None) = Paragraph"

text \<open>
  The element one pass of the loop asks the document for: the body of the loop with
  each call recorded as the element it is to add.
\<close>

definition docx_element_of :: "pystr \<Rightarrow> docx_element" where
  "docx_element_of line = docx_body DocHeading DocParagraph line"

fun element_text :: "docx_element \<Rightarrow> pystr" where
  "element_text (DocHeading t lvl) = t"
| "element_text (DocParagraph t style) = t"

text \<open>The exception the first refused text of a sequence of elements raises, if any.\<close>

fun first_error :: "docx_element list \<Rightarrow> py_error option" where
  "first_error [] = None"
| "first_error (e # es) =
     (case text_error (element_text e) of
        Some x \<Rightarrow> Some x
      | None \<Rightarrow> first_error es)"

fun bold_font :: "canvas_op \<Rightarrow> bool" where
  "bold_font (SetFont f s) = (f = cp ''Helvetica-Bold'')"
| "bold_font (DrawString x y t) = False"
| "bold_font ShowPage = False"
| "bold_font Save = False"

fun indented :: "canvas_op \<Rightarrow> bool" where
  "indented (DrawString x y t) = (40 < x)"
| "indented (SetFont f s) = False"
| "indented ShowPage = False"
| "indented Save = False"

definition pdf_kind :: "canvas \<Rightarrow> kind" where
  "pdf_kind ops =
     (if list_ex bold_font ops then Heading
      else if list_ex indented ops then Bullet
      else Paragraph)"

text \<open>The calls one pass of the loop makes for a line, the cursor being at \<open>y\<close>.\<close>

definition pdf_ops :: "int \<Rightarrow> pystr \<Rightarrow> canvas" where
  "pdf_ops y line = fst (pdf_line ([], y) line)"

fun is_draw :: "canvas_op \<Rightarrow> bool" where
  "is_draw (DrawString x y t) = True"
| "is_draw (SetFont f s) = False"
| "is_draw ShowPage = False"
| "is_draw Save = False"

text \<open>The texts drawn on a canvas, in the order of the calls.\<close>

fun drawn_texts :: "canvas \<Rightarrow> pystr list" where
  "drawn_texts [] = []"
| "drawn_texts (DrawString x y t # ops) = t # drawn_texts ops"
| "drawn_texts (SetFont f s # ops) = drawn_texts ops"
| "drawn_texts (ShowPage # ops) = drawn_texts ops"
| "drawn_texts (Save # ops) = drawn_texts ops"

text \<open>A call respects the bottom margin when it draws no text below 40.\<close>

fun above_margin :: "canvas_op \<Rightarrow> bool" where
  "above_margin (DrawString x y t) = (40 \<le> y)"
| "above_margin (SetFont f s) = True"
| "above_margin ShowPage = True"
| "above_margin Save = True"

text \<open>The branch conditions the two loops share, as a kind.\<close>

definition line_kind :: "pystr \<Rightarrow> kind" where
  "line_kind line =
     (if startswith line (cp ''###'') then Heading
      else if startswith line (cp ''-'') then Bullet
      else Paragraph)"

section \<open>Auxiliary facts\<close>

subsection \<open>Literals and prefixes\<close>

lemma cp_hashes: "cp ''###'' = [35, 35, 35]"
  by (simp add: cp_def)

lemma cp_hash: "cp ''#'' = [35]"
  by (simp add: cp_def)

lemma cp_dash: "cp ''-'' = [45]"
  by (simp add: cp_def)

lemma font_distinct: "cp ''Helvetica'' \<noteq> cp ''Helvetica-Bold''"
  by (simp add: cp_def)

lemma startswith_hash: "startswith l (cp ''#'') \<longleftrightarrow> (\<exists>r. l = 35 # r)"
  by (cases l) (auto simp add: startswith_def cp_hash)

subsection \<open>Splitting, stripping, replacing\<close>

lemma split_newline: "split s [10] = Inr (split_from s [10] [])"
  by (simp add: split_def)

lemma split_from_newline_length:
  "length (split_from s [10] piece) = 1 + count_list s 10"
  by (induction s arbitrary: piece) (auto simp add: startswith_def)

lemma strip_tail: "\<exists>ws. dropWhile isspace s = strip s @ ws \<and> list_all isspace ws"
proof -
  let ?xs = "rev (dropWhile isspace s)"
  have "rev (dropWhile isspace ?xs) @ rev (takeWhile isspace ?xs) = rev ?xs"
    by (simp flip: rev_append)
  then have "dropWhile isspace s = strip s @ rev (takeWhile isspace ?xs)"
    by (simp add: strip_def)
  moreover have "list_all isspace (rev (takeWhile isspace ?xs))"
    by (simp add: list_all_iff) (meson set_takeWhileD)
  ultimately show ?thesis by blast
qed

lemma strip_keeps_head:
  assumes "\<not> isspace c"
  shows "\<exists>r. strip (c # cs) = c # r"
proof -
  have "dropWhile isspace (rev cs @ [c]) = dropWhile isspace (rev cs) @ [c]"
    using assms by (simp add: dropWhile_append)
  then show ?thesis using assms by (simp add: strip_def)
qed

lemma replace_dash: "replace s (cp ''-'') [] = filter (\<lambda>c. c \<noteq> 45) s"
  by (induction s) (simp_all add: cp_dash startswith_def)

subsection \<open>Texts the document accepts\<close>

lemma chunk_error_None:
  "chunk_error s = None \<longleftrightarrow> list_all (\<lambda>c. xml_char c \<and> \<not> surrogate c) s"
  by (auto simp add: chunk_error_def list_all_iff list_ex_iff)

lemma text_error_from_None:
  "text_error_from cs bfr = None \<longleftrightarrow>
     list_all (\<lambda>c. xml_char c \<and> \<not> surrogate c) bfr
     \<and> list_all (\<lambda>c. xml_char c \<and> \<not> surrogate c) cs"
proof (induction cs arbitrary: bfr)
  case Nil
  show ?case by (simp add: chunk_error_None)
next
  case (Cons c cs)
  show ?case
  proof (cases "c = 9 \<or> c = 10 \<or> c = 13")
    case True
    then have ok: "xml_char c \<and> \<not> surrogate c"
      by (auto simp add: xml_char_def surrogate_def)
    show ?thesis
    proof (cases "chunk_error bfr")
      case None
      then have b: "list_all (\<lambda>c. xml_char c \<and> \<not> surrogate c) bfr"
        by (simp add: chunk_error_None)
      from True None have "text_error_from (c # cs) bfr = text_error_from cs []"
        by auto
      then show ?thesis using Cons.IH [of "[]"] b ok by simp
    next
      case (Some e)
      then have "\<not> list_all (\<lambda>c. xml_char c \<and> \<not> surrogate c) bfr"
        using chunk_error_None [of bfr] by simp
      with True Some show ?thesis by simp
    qed
  next
    case False
    with Cons.IH [of "bfr @ [c]"] show ?thesis by auto
  qed
qed

lemma text_error_None:
  "text_error text = None \<longleftrightarrow> list_all (\<lambda>c. xml_char c \<and> \<not> surrogate c) text"
  by (simp add: text_error_def text_error_from_None)

lemma text_error_empty: "text_error [] = None"
  by (simp add: text_error_def chunk_error_def)


subsection \<open>One pass of each loop\<close>

lemmas render_defs = docx_line_def docx_body_def docx_element_of_def add_heading_def
  add_paragraph_def pdf_line_def pdf_ops_def page_break_def showPage_def drawString_def
  setFont_def save_def pdf_title_def height_def letter_def

lemmas eval_defs = create_docx_def create_pdf_def split_def startswith_def strip_def
  isspace_def cp_def bullet_glyph_def text_error_def chunk_error_def xml_char_def
  surrogate_def

lemma docx_element_of_unfold:
  "docx_element_of line =
     (if startswith line (cp ''###'') then DocHeading (strip (replace line (cp ''###'') [])) 1
      else if startswith line (cp ''-'') then DocParagraph (strip line) (Some (cp ''ListBullet''))
      else DocParagraph (strip line) None)"
  by (simp add: docx_element_of_def docx_body_def)

lemma docx_line_outcome:
  "docx_line doc line =
     (case text_error (element_text (docx_element_of line)) of
        None \<Rightarrow> Inr (doc @ [docx_element_of line])
      | Some e \<Rightarrow> Inl e)"
  by (simp add: docx_line_def docx_element_of_def docx_body_def add_heading_def
      add_paragraph_def split: option.split)

lemma docx_lines_outcome:
  "docx_lines doc ls =
     (case first_error (map docx_element_of ls) of
        None \<Rightarrow> Inr (doc @ map docx_element_of ls)
      | Some e \<Rightarrow> Inl e)"
  by (induction ls arbitrary: doc) (simp_all add: docx_line_outcome split: option.split)

lemma create_docx_outcome:
  "create_docx resume_text name =
     (case first_error (DocHeading (name @ [39] @ cp ''s Resume'') 0
             # map docx_element_of (split_from resume_text [10] [])) of
        None \<Rightarrow> Inr (DocHeading (name @ [39] @ cp ''s Resume'') 0
                  # map docx_element_of (split_from resume_text [10] []))
      | Some e \<Rightarrow> Inl e)"
  by (simp add: create_docx_def add_heading_def split_newline docx_lines_outcome
      split: option.split)

lemma pdf_line_unfold:
  "pdf_line (c, y) line =
     (fst (page_break (c, y)) @
        (if startswith line (cp ''###'')
           then [SetFont (cp ''Helvetica-Bold'') 14,
                 DrawString 40 (snd (page_break (c, y))) (strip (replace line (cp ''###'') []))]
         else if startswith line (cp ''-'')
           then [SetFont (cp ''Helvetica'') 12,
                 DrawString 50 (snd (page_break (c, y)))
                   (bullet_glyph @ [32] @ strip (replace line (cp ''-'') []))]
         else [SetFont (cp ''Helvetica'') 12,
               DrawString 40 (snd (page_break (c, y))) (strip line)]),
      snd (page_break (c, y)) - (if startswith line (cp ''###'') then 20 else 15))"
  by (simp add: pdf_line_def drawString_def setFont_def case_prod_beta)

lemma pdf_ops_unfold:
  "pdf_ops y line =
     fst (page_break ([], y)) @
        (if startswith line (cp ''###'')
           then [SetFont (cp ''Helvetica-Bold'') 14,
                 DrawString 40 (snd (page_break ([], y))) (strip (replace line (cp ''###'') []))]
         else if startswith line (cp ''-'')
           then [SetFont (cp ''Helvetica'') 12,
                 DrawString 50 (snd (page_break ([], y)))
                   (bullet_glyph @ [32] @ strip (replace line (cp ''-'') []))]
         else [SetFont (cp ''Helvetica'') 12,
               DrawString 40 (snd (page_break ([], y))) (strip line)])"
  by (simp add: pdf_ops_def pdf_line_unfold)

lemma pdf_line_append:
  "pdf_line (c, y) l = (c @ pdf_ops y l, snd (pdf_line ([], y) l))"
  by (simp add: pdf_line_def pdf_ops_def page_break_def showPage_def drawString_def setFont_def)

lemma pdf_line_canvas: "fst (pdf_line (c, y) l) = c @ pdf_ops y l"
  by (simp add: pdf_line_def pdf_ops_def page_break_def showPage_def drawString_def setFont_def)

lemma page_break_cursor: "snd (page_break (c, y)) = snd (page_break ([], y))"
  by (simp add: page_break_def)

lemma docx_kind_line: "docx_kind (docx_element_of line) = line_kind line"
  by (simp add: docx_element_of_unfold line_kind_def)

lemma pdf_kind_line: "pdf_kind (pdf_ops y line) = line_kind line"
  by (simp add: render_defs pdf_kind_def line_kind_def font_distinct)

lemma line_kind_take: "line_kind (take 3 line) = line_kind line"
  by (simp add: line_kind_def startswith_def cp_hashes cp_dash take_take)

lemma line_kind_space: "isspace w \<Longrightarrow> line_kind (w # rest) = Paragraph"
  by (auto simp add: line_kind_def startswith_def cp_hashes cp_dash isspace_def)

subsection \<open>The loop of \<^verbatim>\<open>create_pdf\<close>\<close>

lemma pdf_title_cursor: "pdf_title name = (fst (pdf_title name), 722)"
  by (simp add: render_defs Let_def)

lemma pdf_ops_draws: "length (filter is_draw (pdf_ops y line)) = 1"
  by (simp add: render_defs)

lemma pdf_ops_above_margin: "list_all above_margin (pdf_ops y line)"
  by (simp add: render_defs)

lemma drawn_texts_append: "drawn_texts (a @ b) = drawn_texts a @ drawn_texts b"
  by (induction a rule: drawn_texts.induct) simp_all

lemma pdf_ops_texts: "drawn_texts (pdf_ops y line) = drawn_texts (pdf_ops 722 line)"
  by (simp add: pdf_ops_unfold page_break_def showPage_def drawn_texts_append)

lemma foldl_pdf_line_draws:
  "length (filter is_draw (fst (foldl pdf_line (c, y) ls)))
     = length (filter is_draw c) + length ls"
proof (induction ls arbitrary: c y)
  case Nil
  show ?case by simp
next
  case (Cons l ls)
  have "pdf_line (c, y) l = (c @ pdf_ops y l, snd (pdf_line ([], y) l))"
    by (rule pdf_line_append)
  then show ?case by (simp add: Cons.IH pdf_ops_draws)
qed

lemma foldl_pdf_line_texts:
  "drawn_texts (fst (foldl pdf_line (c, y) ls))
     = drawn_texts c @ concat (map (\<lambda>l. drawn_texts (pdf_ops 722 l)) ls)"
proof (induction ls arbitrary: c y)
  case Nil
  show ?case by simp
next
  case (Cons l ls)
  have "pdf_line (c, y) l = (c @ pdf_ops y l, snd (pdf_line ([], y) l))"
    by (rule pdf_line_append)
  then show ?case
    using pdf_ops_texts [of y l] by (simp add: Cons.IH drawn_texts_append)
qed

lemma foldl_pdf_line_above_margin:
  "list_all above_margin c \<Longrightarrow> list_all above_margin (fst (foldl pdf_line (c, y) ls))"
proof (induction ls arbitrary: c y)
  case Nil
  then show ?case by simp
next
  case (Cons l ls)
  have step: "pdf_line (c, y) l = (c @ pdf_ops y l, snd (pdf_line ([], y) l))"
    by (rule pdf_line_append)
  have "list_all above_margin (c @ pdf_ops y l)"
    using Cons.prems by (simp add: pdf_ops_above_margin)
  then show ?case using Cons.IH by (simp add: step)
qed







section \<open>Classification of a line\<close>

text \<open>
  C1, as the code has it. Both loops test the raw line, not its trimmed form, and
  agree on the kind. A line that itself starts with \<^verbatim>\<open>###\<close> is a heading in both
  renderers, with the content \<^verbatim>\<open>line.replace("###", "").strip()\<close>: every occurrence of
  the marker is removed, then all surrounding whitespace. Otherwise a line that itself
  starts with \<^verbatim>\<open>-\<close> is a bullet in both renderers, and the canvas shows, after a prefix
  of four characters, the line with every \<^verbatim>\<open>-\<close> removed and all surrounding whitespace
  stripped; the content of the bullet in the document is not part of this statement.
  Otherwise the line is a paragraph with the content \<^verbatim>\<open>line.strip()\<close> in both renderers.
\<close>

theorem classification_by_raw_line:
  "docx_kind (docx_element_of line) = line_kind line
   \<and> pdf_kind (pdf_ops y line) = line_kind line
   \<and> (startswith line (cp ''###'') \<longrightarrow>
         docx_element_of line = DocHeading (strip (replace line (cp ''###'') [])) 1
       \<and> pdf_ops y line =
           fst (page_break ([], y)) @
           [SetFont (cp ''Helvetica-Bold'') 14,
            DrawString 40 (snd (page_break ([], y))) (strip (replace line (cp ''###'') []))])
   \<and> (\<not> startswith line (cp ''###'') \<and> startswith line (cp ''-'') \<longrightarrow>
         docx_kind (docx_element_of line) = Bullet
       \<and> (\<exists>prefix. length prefix = 4
            \<and> pdf_ops y line =
                fst (page_break ([], y)) @
                [SetFont (cp ''Helvetica'') 12,
                 DrawString 50 (snd (page_break ([], y)))
                   (prefix @ strip (filter (\<lambda>c. c \<noteq> 45) line))]))
   \<and> (\<not> startswith line (cp ''###'') \<and> \<not> startswith line (cp ''-'') \<longrightarrow>
         docx_element_of line = DocParagraph (strip line) None
       \<and> pdf_ops y line =
           fst (page_break ([], y)) @
           [SetFont (cp ''Helvetica'') 12, DrawString 40 (snd (page_break ([], y))) (strip line)])
   \<and> replace line (cp ''-'') [] = filter (\<lambda>c. c \<noteq> 45) line"
proof -
  have kinds: "docx_kind (docx_element_of line) = line_kind line
      \<and> pdf_kind (pdf_ops y line) = line_kind line"
    by (simp add: docx_kind_line pdf_kind_line)
  have headed: "startswith line (cp ''###'') \<longrightarrow>
         docx_element_of line = DocHeading (strip (replace line (cp ''###'') [])) 1
       \<and> pdf_ops y line =
           fst (page_break ([], y)) @
           [SetFont (cp ''Helvetica-Bold'') 14,
            DrawString 40 (snd (page_break ([], y))) (strip (replace line (cp ''###'') []))]"
    by (simp add: pdf_ops_unfold docx_element_of_unfold)
  have "length (bullet_glyph @ [32]) = 4" by (simp add: bullet_glyph_def)
  moreover have "\<not> startswith line (cp ''###'') \<and> startswith line (cp ''-'') \<longrightarrow>
         pdf_ops y line =
                fst (page_break ([], y)) @
                [SetFont (cp ''Helvetica'') 12,
                 DrawString 50 (snd (page_break ([], y)))
                   ((bullet_glyph @ [32]) @ strip (filter (\<lambda>c. c \<noteq> 45) line))]"
    by (simp add: pdf_ops_unfold replace_dash)
  ultimately have drawn: "\<not> startswith line (cp ''###'') \<and> startswith line (cp ''-'') \<longrightarrow>
         (\<exists>prefix. length prefix = 4
            \<and> pdf_ops y line =
                fst (page_break ([], y)) @
                [SetFont (cp ''Helvetica'') 12,
                 DrawString 50 (snd (page_break ([], y)))
                   (prefix @ strip (filter (\<lambda>c. c \<noteq> 45) line))])"
    by blast
  have listed: "\<not> startswith line (cp ''###'') \<and> startswith line (cp ''-'') \<longrightarrow>
         docx_kind (docx_element_of line) = Bullet"
    by (simp add: docx_element_of_unfold)
  have plain: "\<not> startswith line (cp ''###'') \<and> \<not> startswith line (cp ''-'') \<longrightarrow>
         docx_element_of line = DocParagraph (strip line) None
       \<and> pdf_ops y line =
           fst (page_break ([], y)) @
           [SetFont (cp ''Helvetica'') 12, DrawString 40 (snd (page_break ([], y))) (strip line)]"
    by (simp add: pdf_ops_unfold docx_element_of_unfold)
  have dashes: "replace line (cp ''-'') [] = filter (\<lambda>c. c \<noteq> 45) line"
    by (rule replace_dash)
  from kinds headed drawn listed plain dashes show ?thesis by blast
qed

theorem classification_by_raw_line_witness:
  "startswith (cp ''### Skills '') (cp ''###'')
   \<and> docx_element_of (cp ''### Skills '') = DocHeading (cp ''Skills'') 1
   \<and> pdf_ops 722 (cp ''### Skills '') =
        [SetFont (cp ''Helvetica-Bold'') 14, DrawString 40 722 (cp ''Skills'')]
   \<and> \<not> startswith (cp ''- Python-3'') (cp ''###'') \<and> startswith (cp ''- Python-3'') (cp ''-'')
   \<and> docx_kind (docx_element_of (cp ''- Python-3'')) = Bullet
   \<and> (\<exists>prefix. length prefix = 4
        \<and> pdf_ops 722 (cp ''- Python-3'') =
            [SetFont (cp ''Helvetica'') 12, DrawString 50 722 (prefix @ cp ''Python3'')])
   \<and> \<not> startswith (cp '' - Python'') (cp ''###'') \<and> \<not> startswith (cp '' - Python'') (cp ''-'')
   \<and> docx_element_of (cp '' - Python'') = DocParagraph (cp ''- Python'') None
   \<and> pdf_ops 722 (cp '' - Python'') =
        [SetFont (cp ''Helvetica'') 12, DrawString 40 722 (cp ''- Python'')]"
proof -
  have a: "startswith (cp ''### Skills '') (cp ''###'')"
    by (simp add: cp_def startswith_def)
  have b: "\<not> startswith (cp ''- Python-3'') (cp ''###'') \<and> startswith (cp ''- Python-3'') (cp ''-'')"
    by (simp add: cp_def startswith_def)
  have c: "\<not> startswith (cp '' - Python'') (cp ''###'') \<and> \<not> startswith (cp '' - Python'') (cp ''-'')"
    by (simp add: cp_def startswith_def)
  have s: "strip (replace (cp ''### Skills '') (cp ''###'') []) = cp ''Skills''"
    "strip (filter (\<lambda>c. c \<noteq> 45) (cp ''- Python-3'')) = cp ''Python3''"
    "strip (cp '' - Python'') = cp ''- Python''"
    by (simp_all add: strip_def isspace_def cp_def startswith_def)
  have p: "page_break ([], 722) = ([], 722)" by (simp add: page_break_def)
  from classification_by_raw_line [of "cp ''### Skills ''" 722] a
  have 1: "docx_element_of (cp ''### Skills '') =
        DocHeading (strip (replace (cp ''### Skills '') (cp ''###'') [])) 1
    \<and> pdf_ops 722 (cp ''### Skills '') = fst (page_break ([], 722)) @
           [SetFont (cp ''Helvetica-Bold'') 14,
            DrawString 40 (snd (page_break ([], 722)))
              (strip (replace (cp ''### Skills '') (cp ''###'') []))]"
    by blast
  from classification_by_raw_line [of "cp ''- Python-3''" 722] b
  have 2: "docx_kind (docx_element_of (cp ''- Python-3'')) = Bullet
    \<and> (\<exists>prefix. length prefix = 4
         \<and> pdf_ops 722 (cp ''- Python-3'') = fst (page_break ([], 722)) @
             [SetFont (cp ''Helvetica'') 12,
              DrawString 50 (snd (page_break ([], 722)))
                (prefix @ strip (filter (\<lambda>c. c \<noteq> 45) (cp ''- Python-3'')))])"
    by blast
  from classification_by_raw_line [of "cp '' - Python''" 722] c
  have 3: "docx_element_of (cp '' - Python'') = DocParagraph (strip (cp '' - Python'')) None
    \<and> pdf_ops 722 (cp '' - Python'') = fst (page_break ([], 722)) @
           [SetFont (cp ''Helvetica'') 12,
            DrawString 40 (snd (page_break ([], 722))) (strip (cp '' - Python''))]"
    by blast
  from 1 2 3 a b c show ?thesis
    by (simp only: s p fst_conv snd_conv append_Nil) simp
qed

theorem raw_line_counterexample:
  "startswith (strip (cp '' ### Education'')) (cp ''###'')
   \<and> create_docx (cp '' ### Education'' @ [10] @ cp ''- 2022-01 to 2023-12'' @ [10]
        @ cp ''-  Python'' @ [10] @ cp ''### C ### D'') (cp ''Jane Doe'')
     = Inr [DocHeading (cp ''Jane Doe'' @ [39] @ cp ''s Resume'') 0,
            DocParagraph (cp ''### Education'') None,
            DocParagraph (cp ''- 2022-01 to 2023-12'') (Some (cp ''ListBullet'')),
            DocParagraph (cp ''-  Python'') (Some (cp ''ListBullet'')),
            DocHeading (cp ''C  D'') 1]
   \<and> create_pdf (cp '' ### Education'' @ [10] @ cp ''- 2022-01 to 2023-12'' @ [10]
        @ cp ''-  Python'' @ [10] @ cp ''### C ### D'') (cp ''Jane Doe'')
     = Inr [SetFont (cp ''Helvetica-Bold'') 16,
            DrawString 40 752 (cp ''Jane Doe'' @ [39] @ cp ''s Resume''),
            SetFont (cp ''Helvetica'') 12,
            SetFont (cp ''Helvetica'') 12,
            DrawString 40 722 (cp ''### Education''),
            SetFont (cp ''Helvetica'') 12,
            DrawString 50 707 (bullet_glyph @ [32] @ cp ''202201 to 202312''),
            SetFont (cp ''Helvetica'') 12,
            DrawString 50 692 (bullet_glyph @ [32] @ cp ''Python''),
            SetFont (cp ''Helvetica-Bold'') 14,
            DrawString 40 677 (cp ''C  D''),
            ShowPage, Save]"
  by (simp add: eval_defs render_defs)

text \<open>
  C5, as the code has it. The kind of a line is decided by the raw line: it depends on
  the first three characters only, no state of the loop enters it, and a line is a
  heading exactly when it starts with \<^verbatim>\<open>###\<close> itself. A line that begins with a
  whitespace character is a paragraph in both renderers, whatever follows.
\<close>

theorem kind_by_raw_prefix:
  "docx_kind (docx_element_of line) = docx_kind (docx_element_of (take 3 line))
   \<and> pdf_kind (pdf_ops y line) = pdf_kind (pdf_ops y' (take 3 line))
   \<and> docx_line doc line =
       (case text_error (element_text (docx_element_of line)) of
          None \<Rightarrow> Inr (doc @ [docx_element_of line])
        | Some e \<Rightarrow> Inl e)
   \<and> (docx_kind (docx_element_of line) = Heading \<longleftrightarrow> startswith line (cp ''###''))
   \<and> (pdf_kind (pdf_ops y line) = Heading \<longleftrightarrow> startswith line (cp ''###''))
   \<and> (isspace w \<longrightarrow> docx_element_of (w # rest) = DocParagraph (strip (w # rest)) None
         \<and> pdf_kind (pdf_ops y (w # rest)) = Paragraph)"
proof -
  have "isspace w \<longrightarrow> docx_element_of (w # rest) = DocParagraph (strip (w # rest)) None"
    by (auto simp add: docx_element_of_unfold startswith_def cp_hashes cp_dash isspace_def)
  moreover have "line_kind line = Heading \<longleftrightarrow> startswith line (cp ''###'')"
    by (simp add: line_kind_def)
  moreover note docx_line_outcome [of doc line]
  ultimately show ?thesis
    by (simp add: docx_kind_line pdf_kind_line line_kind_take line_kind_space)
qed

theorem kind_by_raw_prefix_witness:
  "isspace 9 \<and> docx_element_of (9 # cp ''### Skills'') = DocParagraph (cp ''### Skills'') None
   \<and> pdf_kind (pdf_ops 722 (9 # cp ''### Skills'')) = Paragraph"
proof -
  have sp: "isspace 9" by (simp add: isspace_def)
  have st: "strip (9 # cp ''### Skills'') = cp ''### Skills''"
    by (simp add: strip_def isspace_def cp_def)
  from kind_by_raw_prefix [of "9 # cp ''### Skills''" 722 722 "[]" 9 "cp ''### Skills''"]
  have "isspace 9 \<longrightarrow>
          docx_element_of (9 # cp ''### Skills'') = DocParagraph (strip (9 # cp ''### Skills'')) None
          \<and> pdf_kind (pdf_ops 722 (9 # cp ''### Skills'')) = Paragraph"
    by blast
  with sp st show ?thesis by simp
qed

theorem trimmed_heading_counterexample:
  "startswith (strip (cp ''  ### Summary'')) (cp ''###'')
   \<and> docx_element_of (cp ''  ### Summary'') = DocParagraph (cp ''### Summary'') None
   \<and> docx_kind (docx_element_of (cp ''  ### Summary'')) \<noteq> Heading
   \<and> pdf_ops 722 (cp ''  ### Summary'') =
       [SetFont (cp ''Helvetica'') 12, DrawString 40 722 (cp ''### Summary'')]
   \<and> pdf_kind (pdf_ops 722 (cp ''  ### Summary'')) \<noteq> Heading"
  by (simp add: eval_defs render_defs pdf_kind_def)

text \<open>
  C9: for every line the kind read off the element \<^verbatim>\<open>create_docx\<close> asks for and the kind
  read off the calls \<^verbatim>\<open>create_pdf\<close> makes are the same, at every cursor position: both
  are the kind given by the shared branch conditions.
\<close>

theorem renderers_agree_on_kind:
  "docx_kind (docx_element_of line) = pdf_kind (pdf_ops y line)
   \<and> docx_kind (docx_element_of line) = line_kind line
   \<and> pdf_kind (pdf_ops y line) = line_kind line"
  by (simp add: docx_kind_line pdf_kind_line)

theorem renderers_agree_on_kind_witness:
  "docx_kind (docx_element_of (cp ''- Did X'')) = pdf_kind (pdf_ops 722 (cp ''- Did X''))"
  using renderers_agree_on_kind [of "cp ''- Did X''" 722] by simp

text \<open>
  C10: a line that starts with \<^verbatim>\<open>#\<close> but not with \<^verbatim>\<open>###\<close> is a plain paragraph in both
  renderers. Its content is the line without its trailing whitespace, so every \<^verbatim>\<open>#\<close>
  of the line is still there and the content starts with \<^verbatim>\<open>#\<close>. The document gets this
  paragraph unless the library refuses its text.
\<close>

theorem single_hash_is_paragraph:
  assumes "startswith line (cp ''#'')" and "\<not> startswith line (cp ''###'')"
  shows "docx_element_of line = DocParagraph (strip line) None
    \<and> docx_line doc line =
        (case text_error (strip line) of
           None \<Rightarrow> Inr (doc @ [DocParagraph (strip line) None])
         | Some e \<Rightarrow> Inl e)
    \<and> pdf_line (c, y) line =
        (fst (page_break (c, y)) @
           [SetFont (cp ''Helvetica'') 12, DrawString 40 (snd (page_break (c, y))) (strip line)],
         snd (page_break (c, y)) - 15)
    \<and> startswith (strip line) (cp ''#'')
    \<and> (\<exists>ws. line = strip line @ ws \<and> list_all isspace ws)"
proof -
  from assms(1) obtain r where line: "line = 35 # r"
    by (auto simp add: startswith_hash)
  have nd: "\<not> startswith line (cp ''-'')"
    by (simp add: line startswith_def cp_dash)
  have ns: "\<not> isspace 35" by (simp add: isspace_def)
  have 0: "docx_element_of line = DocParagraph (strip line) None"
    using assms(2) nd by (simp add: docx_element_of_unfold)
  have 1: "docx_line doc line =
        (case text_error (strip line) of
           None \<Rightarrow> Inr (doc @ [DocParagraph (strip line) None])
         | Some e \<Rightarrow> Inl e)"
    using docx_line_outcome [of doc line] unfolding 0 by simp
  have 2: "pdf_line (c, y) line =
        (fst (page_break (c, y)) @
           [SetFont (cp ''Helvetica'') 12, DrawString 40 (snd (page_break (c, y))) (strip line)],
         snd (page_break (c, y)) - 15)"
    using assms(2) nd by (simp add: pdf_line_unfold)
  from strip_keeps_head [OF ns, of r] have 3: "startswith (strip line) (cp ''#'')"
    by (auto simp add: line startswith_hash)
  from strip_tail [of line] have 4: "\<exists>ws. line = strip line @ ws \<and> list_all isspace ws"
    using ns by (simp add: line)
  from 0 1 2 3 4 show ?thesis by blast
qed

theorem single_hash_is_paragraph_witness:
  "startswith (cp ''## Section'') (cp ''#'') \<and> \<not> startswith (cp ''## Section'') (cp ''###'')
   \<and> docx_line [] (cp ''## Section'') = Inr [DocParagraph (cp ''## Section'') None]
   \<and> pdf_line ([], 722) (cp ''## Section'') =
        ([SetFont (cp ''Helvetica'') 12, DrawString 40 722 (cp ''## Section'')], 707)"
proof -
  have a: "startswith (cp ''## Section'') (cp ''#'')"
    by (simp add: startswith_def cp_def)
  have b: "\<not> startswith (cp ''## Section'') (cp ''###'')"
    by (simp add: startswith_def cp_def)
  have s: "strip (cp ''## Section'') = cp ''## Section''"
    by (simp add: strip_def isspace_def cp_def)
  have t: "text_error (cp ''## Section'') = None"
    by (simp add: text_error_None cp_def xml_char_def surrogate_def)
  have p: "page_break ([], 722) = ([], 722)" by (simp add: page_break_def)
  from single_hash_is_paragraph [OF a b, of "[]" "[]" 722] a b
  show ?thesis by (simp add: s t p)
qed

text \<open>
  C4, evaluated on the code: the text \<^verbatim>\<open>"### Summary\n- Did X\nPlain text"\<close>. The canvas
  shows the heading \<^verbatim>\<open>Summary\<close>, the bullet content \<^verbatim>\<open>Did X\<close> after the prefix and the
  paragraph \<^verbatim>\<open>Plain text\<close>. The document has the heading and the paragraph, but its
  list paragraph holds \<^verbatim>\<open>- Did X\<close>: the marker is still there.
\<close>

theorem summary_example:
  "create_docx (cp ''### Summary'' @ [10] @ cp ''- Did X'' @ [10] @ cp ''Plain text'') (cp ''Jane Doe'')
     = Inr [DocHeading (cp ''Jane Doe'' @ [39] @ cp ''s Resume'') 0,
            DocHeading (cp ''Summary'') 1,
            DocParagraph (cp ''- Did X'') (Some (cp ''ListBullet'')),
            DocParagraph (cp ''Plain text'') None]
   \<and> create_pdf (cp ''### Summary'' @ [10] @ cp ''- Did X'' @ [10] @ cp ''Plain text'') (cp ''Jane Doe'')
     = Inr [SetFont (cp ''Helvetica-Bold'') 16,
            DrawString 40 752 (cp ''Jane Doe'' @ [39] @ cp ''s Resume''),
            SetFont (cp ''Helvetica'') 12,
            SetFont (cp ''Helvetica-Bold'') 14,
            DrawString 40 722 (cp ''Summary''),
            SetFont (cp ''Helvetica'') 12,
            DrawString 50 702 (bullet_glyph @ [32] @ cp ''Did X''),
            SetFont (cp ''Helvetica'') 12,
            DrawString 40 687 (cp ''Plain text''),
            ShowPage, Save]"
  by (simp add: eval_defs render_defs)

section \<open>Lines and elements\<close>

text \<open>
  C7, as the code has it. The text is split at every newline, so it has one line more
  than it has newlines, empty lines included, and each line is given exactly one
  element to add. The canvas holds the title and then exactly one drawn text per line,
  in the order of the lines. The document holds the title and then exactly one element
  per line, in the order of the lines, when the library accepts the title and the text
  of every element; otherwise \<^verbatim>\<open>create_docx\<close> ends with the exception of the first text
  the library refuses and returns no document. An empty line gives an empty plain
  paragraph, which the document always accepts, and an empty text drawn in paragraph
  style on the canvas.
\<close>

theorem one_element_per_line:
  "\<exists>lines. split resume_text [10] = Inr lines
     \<and> length lines = 1 + count_list resume_text 10
     \<and> create_docx resume_text name =
         (case first_error (DocHeading (name @ [39] @ cp ''s Resume'') 0
                 # map docx_element_of lines) of
            None \<Rightarrow> Inr (DocHeading (name @ [39] @ cp ''s Resume'') 0
                      # map docx_element_of lines)
          | Some e \<Rightarrow> Inl e)
     \<and> (\<exists>c. create_pdf resume_text name = Inr c
            \<and> length (filter is_draw c) = 1 + length lines
            \<and> drawn_texts c =
                (name @ [39] @ cp ''s Resume'')
                # concat (map (\<lambda>l. drawn_texts (pdf_ops 722 l)) lines))
     \<and> docx_element_of [] = DocParagraph [] None
     \<and> docx_line doc [] = Inr (doc @ [DocParagraph [] None])
     \<and> pdf_ops y [] =
         fst (page_break ([], y)) @
         [SetFont (cp ''Helvetica'') 12, DrawString 40 (snd (page_break ([], y))) []]
     \<and> length (filter is_draw (pdf_ops y line)) = 1
     \<and> length (drawn_texts (pdf_ops 722 line)) = 1"
proof -
  let ?lines = "split_from resume_text [10] []"
  have a: "split resume_text [10] = Inr ?lines" by (rule split_newline)
  have b: "length ?lines = 1 + count_list resume_text 10"
    by (rule split_from_newline_length)
  note c = create_docx_outcome [of resume_text name]
  have "length (filter is_draw (fst (foldl pdf_line (fst (pdf_title name), 722) ?lines)))
      = length (filter is_draw (fst (pdf_title name))) + length ?lines"
    by (rule foldl_pdf_line_draws)
  moreover have "length (filter is_draw (fst (pdf_title name))) = 1"
    by (simp add: render_defs)
  moreover have "drawn_texts (fst (foldl pdf_line (fst (pdf_title name), 722) ?lines))
      = drawn_texts (fst (pdf_title name))
        @ concat (map (\<lambda>l. drawn_texts (pdf_ops 722 l)) ?lines)"
    by (rule foldl_pdf_line_texts)
  moreover have "drawn_texts (fst (pdf_title name)) = [name @ [39] @ cp ''s Resume'']"
    by (simp add: render_defs)
  ultimately have d: "\<exists>c. create_pdf resume_text name = Inr c
            \<and> length (filter is_draw c) = 1 + length ?lines
            \<and> drawn_texts c =
                (name @ [39] @ cp ''s Resume'')
                # concat (map (\<lambda>l. drawn_texts (pdf_ops 722 l)) ?lines)"
    using pdf_title_cursor [of name]
    by (simp add: create_pdf_def a save_def showPage_def drawn_texts_append)
  have e: "docx_element_of [] = DocParagraph [] None"
    by (simp add: docx_element_of_unfold startswith_def strip_def cp_hashes cp_dash)
  have e': "docx_line doc [] = Inr (doc @ [DocParagraph [] None])"
    using docx_line_outcome [of doc "[]"] unfolding e by (simp add: text_error_empty)
  have f: "pdf_ops y [] =
         fst (page_break ([], y)) @
         [SetFont (cp ''Helvetica'') 12, DrawString 40 (snd (page_break ([], y))) []]"
    by (simp add: pdf_ops_unfold startswith_def strip_def cp_hashes cp_dash)
  have g: "length (filter is_draw (pdf_ops y line)) = 1" by (rule pdf_ops_draws)
  have h: "length (drawn_texts (pdf_ops 722 line)) = 1"
    by (simp add: pdf_ops_unfold page_break_def)
  from a b c d e e' f g h show ?thesis by blast
qed

theorem refused_line_counterexample:
  "split [0, 10] [10] = Inr [[0], []]
   \<and> create_docx [0, 10] (cp ''Jane Doe'') = Inl ValueError"
  by (simp add: eval_defs render_defs)



section \<open>Pagination\<close>



text \<open>
  C3: every text \<^verbatim>\<open>create_pdf\<close> draws is drawn at a vertical position of at least 40, the
  bottom margin. One pass of the loop keeps this true of the canvas from any cursor
  position, and a pass entered with the cursor below 40 finishes the page before
  anything is drawn.
\<close>

theorem draws_above_bottom_margin:
  "(\<exists>c. create_pdf resume_text name = Inr c \<and> list_all above_margin c)
   \<and> (list_all above_margin c0 \<longrightarrow> list_all above_margin (fst (pdf_line (c0, y) line)))
   \<and> (y < 40 \<longrightarrow> (\<exists>ops. pdf_ops y line = ShowPage # ops))"
proof -
  have "list_all above_margin (fst (pdf_title name))"
    by (simp add: render_defs)
  then have "list_all above_margin (fst (foldl pdf_line (fst (pdf_title name), 722) (split_from resume_text [10] [])))"
    by (rule foldl_pdf_line_above_margin)
  then have run: "\<exists>c. create_pdf resume_text name = Inr c \<and> list_all above_margin c"
    using pdf_title_cursor [of name]
    by (simp add: create_pdf_def split_newline save_def showPage_def)
  have step: "list_all above_margin c0 \<longrightarrow> list_all above_margin (fst (pdf_line (c0, y) line))"
    by (simp add: pdf_line_canvas pdf_ops_above_margin)
  have brk: "y < 40 \<longrightarrow> (\<exists>ops. pdf_ops y line = ShowPage # ops)"
    by (simp add: pdf_ops_unfold page_break_def showPage_def)
  from run step brk show ?thesis by blast
qed

theorem draws_above_bottom_margin_witness:
  "list_all above_margin [DrawString 40 47 (cp ''Plain text'')]
   \<and> list_all above_margin (fst (pdf_line ([DrawString 40 47 (cp ''Plain text'')], 32) (cp ''- Did X'')))
   \<and> (32::int) < 40
   \<and> (\<exists>ops. pdf_ops 32 (cp ''- Did X'') = ShowPage # ops)"
proof -
  have a: "list_all above_margin [DrawString 40 47 (cp ''Plain text'')]" by simp
  have b: "(32::int) < 40" by simp
  from draws_above_bottom_margin [of "[]" "[]" "[DrawString 40 47 (cp ''Plain text'')]" 32 "cp ''- Did X''"]
  have "(list_all above_margin [DrawString 40 47 (cp ''Plain text'')] \<longrightarrow>
           list_all above_margin (fst (pdf_line ([DrawString 40 47 (cp ''Plain text'')], 32) (cp ''- Did X''))))
      \<and> ((32::int) < 40 \<longrightarrow> (\<exists>ops. pdf_ops 32 (cp ''- Did X'') = ShowPage # ops))"
    by blast
  with a b show ?thesis by blast
qed

text \<open>
  C6, as the code has it. A heading moves the cursor down by 20, a bullet and a
  paragraph both by 15. A bullet is drawn at \<open>x = 50\<close>, a heading and a paragraph at
  \<open>x = 40\<close>. A heading is drawn in Helvetica-Bold at size 14, a bullet and a paragraph
  in Helvetica at size 12. What precedes the content of a bullet is not part of this
  statement.
\<close>

theorem draw_style_by_kind:
  "snd (page_break (c, y)) - snd (pdf_line (c, y) line) =
     (case line_kind line of Heading \<Rightarrow> 20 | Bullet \<Rightarrow> 15 | Paragraph \<Rightarrow> 15)
   \<and> (\<exists>t. last (pdf_ops y line) =
          DrawString (case line_kind line of Heading \<Rightarrow> 40 | Bullet \<Rightarrow> 50 | Paragraph \<Rightarrow> 40)
            (snd (page_break (c, y))) t)
   \<and> last (butlast (pdf_ops y line)) =
       (case line_kind line of
          Heading \<Rightarrow> SetFont (cp ''Helvetica-Bold'') 14
        | Bullet \<Rightarrow> SetFont (cp ''Helvetica'') 12
        | Paragraph \<Rightarrow> SetFont (cp ''Helvetica'') 12)"
proof -
  have adv: "snd (page_break (c, y)) - snd (pdf_line (c, y) line) =
     (case line_kind line of Heading \<Rightarrow> 20 | Bullet \<Rightarrow> 15 | Paragraph \<Rightarrow> 15)"
    by (simp add: pdf_line_unfold line_kind_def)
  have drw: "\<exists>t. last (pdf_ops y line) =
          DrawString (case line_kind line of Heading \<Rightarrow> 40 | Bullet \<Rightarrow> 50 | Paragraph \<Rightarrow> 40)
            (snd (page_break (c, y))) t"
    by (simp add: pdf_ops_unfold line_kind_def page_break_cursor [of c y])
  have fnt: "last (butlast (pdf_ops y line)) =
       (case line_kind line of
          Heading \<Rightarrow> SetFont (cp ''Helvetica-Bold'') 14
        | Bullet \<Rightarrow> SetFont (cp ''Helvetica'') 12
        | Paragraph \<Rightarrow> SetFont (cp ''Helvetica'') 12)"
    by (simp add: pdf_ops_unfold line_kind_def butlast_append)
  from adv drw fnt show ?thesis by blast
qed

theorem draw_style_by_kind_witness:
  "line_kind (cp ''- Did X'') = Bullet
   \<and> (\<exists>t. last (pdf_ops 702 (cp ''- Did X'')) = DrawString 50 702 t)
   \<and> 702 - snd (pdf_line ([], 702) (cp ''- Did X'')) = 15
   \<and> last (butlast (pdf_ops 702 (cp ''- Did X''))) = SetFont (cp ''Helvetica'') 12"
proof -
  have k: "line_kind (cp ''- Did X'') = Bullet"
    by (simp add: line_kind_def startswith_def cp_def)
  have p: "snd (page_break ([], 702)) = 702"
    by (simp add: page_break_def)
  from draw_style_by_kind [of "[]" 702 "cp ''- Did X''"] k p
  show ?thesis by simp
qed

theorem equal_step_counterexample:
  "line_kind (cp ''- Did X'') = Bullet \<and> line_kind (cp ''Plain text'') = Paragraph
   \<and> 702 - snd (pdf_line ([], 702) (cp ''- Did X'')) = 15
   \<and> 702 - snd (pdf_line ([], 702) (cp ''Plain text'')) = 15
   \<and> \<not> (702 - snd (pdf_line ([], 702) (cp ''Plain text''))
          < 702 - snd (pdf_line ([], 702) (cp ''- Did X'')))"
  by (simp add: eval_defs render_defs line_kind_def)

end
